theory Spec2Isabelle
  imports Main
begin

section \<open>Values of the plugin framework\<close>

text \<open>
  \<^verbatim>\<open>types.String\<close> is a three-state value: null, unknown, or a known string.
  The zero value of the Go struct is the null string. \<^verbatim>\<open>ValueString()\<close> gives the
  empty string for a null or unknown value.
\<close>

datatype String = StringNull | StringUnknown | StringValue string

fun IsNull :: "String \<Rightarrow> bool" where
  "IsNull StringNull = True"
| "IsNull StringUnknown = False"
| "IsNull (StringValue s) = False"

fun IsUnknown :: "String \<Rightarrow> bool" where
  "IsUnknown StringNull = False"
| "IsUnknown StringUnknown = True"
| "IsUnknown (StringValue s) = False"

fun ValueString :: "String \<Rightarrow> string" where
  "ValueString StringNull = []"
| "ValueString StringUnknown = []"
| "ValueString (StringValue s) = s"

text \<open>
  Diagnostics: an ordered collection of errors and warnings. \<^verbatim>\<open>Append\<close> skips a
  diagnostic that the collection already contains; \<^verbatim>\<open>AddError\<close> appends one error
  diagnostic; \<^verbatim>\<open>HasError\<close> tells whether any diagnostic is an error.
\<close>

datatype Severity = SeverityError | SeverityWarning

record Diagnostic =
  Severity :: Severity
  Summary :: string
  Detail :: string

type_synonym Diagnostics = "Diagnostic list"

fun Append :: "Diagnostics \<Rightarrow> Diagnostic list \<Rightarrow> Diagnostics" where
  "Append diags [] = diags"
| "Append diags (d # ds) = Append (if d \<in> set diags then diags else diags @ [d]) ds"

definition AddError :: "string \<Rightarrow> string \<Rightarrow> Diagnostics \<Rightarrow> Diagnostics" where
  "AddError summary detail diags =
     Append diags [\<lparr>Severity = SeverityError, Summary = summary, Detail = detail\<rparr>]"

definition HasError :: "Diagnostics \<Rightarrow> bool" where
  "HasError diags = list_ex (\<lambda>d. Severity d = SeverityError) diags"

text \<open>
  What \<^verbatim>\<open>Get(ctx, &data)\<close> on a plan, state or config yields: the diagnostics it
  returns, and the value it leaves in \<^verbatim>\<open>data\<close>.
\<close>

type_synonym 'a Get = "Diagnostics \<times> 'a"

text \<open>
  A Go call either returns or panics. A panic carries its message; the message of a nil
  dereference is the one the Go runtime gives.
\<close>

datatype 'a outcome = Panic string | Returned 'a

definition nil_dereference :: string where
  "nil_dereference = ''runtime error: invalid memory address or nil pointer dereference''"

text \<open>
  \<^verbatim>\<open>fmt.Errorf(format)\<close> with no operands: a format without a percent sign is
  the message itself. What the formatter makes of a format that holds a percent sign is
  the parameter \<open>verbs\<close>.
\<close>

definition Errorf :: "(string \<Rightarrow> string) \<Rightarrow> string \<Rightarrow> string" where
  "Errorf verbs format = (if CHR ''%'' \<in> set format then verbs format else format)"

section \<open>The remote API client\<close>

text \<open>
  The generated client is an external collaborator. The fields of its types that the
  provider reads or writes are modelled; a pointer is an option. A call gives a
  transport error (\<open>Inl\<close>, the error's message) or a response with its status code, its raw
  body and the parsed success body (\<^verbatim>\<open>JSON201\<close> for create, \<^verbatim>\<open>JSON200\<close> for
  show and update), which is nil unless the status is the success status.
\<close>

record CatalogTypeV2 =
  Id :: string
  Name :: string
  TypeName :: string
  Description :: string
  SourceRepoUrl :: "string option"

record CreateTypeRequestBody =
  Name :: string
  Description :: string
  Annotations :: "(string \<times> string) list option"
  TypeName :: "string option"
  SourceRepoUrl :: "string option"

record CatalogV2UpdateTypeJSONRequestBody =
  Name :: string
  Description :: string
  Annotations :: "(string \<times> string) list option"
  SourceRepoUrl :: "string option"

record 'a Response =
  StatusCode :: int
  Body :: string
  JSON :: "'a option"

type_synonym 'a Result = "string + 'a Response"

record ClientWithResponses =
  CatalogV2CreateTypeWithResponse :: "CreateTypeRequestBody \<Rightarrow> CatalogTypeV2 Result"
  CatalogV2ShowTypeWithResponse :: "string \<Rightarrow> CatalogTypeV2 Result"
  CatalogV2UpdateTypeWithResponse ::
    "string \<Rightarrow> CatalogV2UpdateTypeJSONRequestBody \<Rightarrow> CatalogTypeV2 Result"
  CatalogV2DestroyTypeWithResponse :: "string \<Rightarrow> unit Result"

section \<open>The catalog type resource\<close>

record IncidentCatalogTypeResource =
  client :: "ClientWithResponses option"
  terraformVersion :: string

record IncidentCatalogTypeResourceModel =
  ID :: String
  Name :: String
  TypeName :: String
  Description :: String
  SourceRepoURL :: String

text \<open>
  The data the resource's \<^verbatim>\<open>Configure\<close> expects from the provider. The declaration
  of \<^verbatim>\<open>IncidentProviderData\<close> is not among the source files: the record has the two
  fields that \<^verbatim>\<open>Configure\<close> reads, each with the type of the field it is assigned to.
\<close>

record IncidentProviderData =
  Client :: "ClientWithResponses option"
  TerraformVersion :: string

text \<open>
  \<^verbatim>\<open>ProviderData\<close>, \<^verbatim>\<open>ResourceData\<close> and \<^verbatim>\<open>DataSourceData\<close> have the
  interface type \<^verbatim>\<open>any\<close>: the nil interface, or a pointer with its dynamic type.
\<close>

datatype any =
  NilInterface
| ClientWithResponsesPtr ClientWithResponses
| IncidentProviderDataPtr "IncidentProviderData option"

fun type_name_of :: "any \<Rightarrow> string" where
  "type_name_of NilInterface = ''<nil>''"
| "type_name_of (ClientWithResponsesPtr c) = ''*client.ClientWithResponses''"
| "type_name_of (IncidentProviderDataPtr d) = ''*provider.IncidentProviderData''"

text \<open>
  Responses of the framework: every response has diagnostics; the responses of the
  lifecycle operations and of import also hold the resource's state (\<open>None\<close>: no state),
  a model of the resource's kind.
\<close>

record ConfigureResponse =
  Diagnostics :: Diagnostics

record 'm StateResponse = ConfigureResponse +
  State :: "'m option"

text \<open>
  The resource's Configure: nothing to do for nil provider data; provider data of another
  dynamic type than \<^verbatim>\<open>*IncidentProviderData\<close> is reported (the message prints the
  dynamic type with \<^verbatim>\<open>%T\<close>) and the resource is left as it was.
\<close>

definition resource_Configure ::
  "IncidentCatalogTypeResource \<Rightarrow> any \<Rightarrow> ConfigureResponse \<Rightarrow>
   (IncidentCatalogTypeResource \<times> ConfigureResponse) outcome" where
  "resource_Configure r ProviderData resp =
     (case ProviderData of
        NilInterface \<Rightarrow> Returned (r, resp)
      | IncidentProviderDataPtr p \<Rightarrow>
          (case p of
             None \<Rightarrow> Panic nil_dereference
           | Some data \<Rightarrow>
               Returned (r\<lparr>client := Client data, terraformVersion := TerraformVersion data\<rparr>, resp))
      | ClientWithResponsesPtr c \<Rightarrow>
          Returned (r, resp\<lparr>Diagnostics := AddError ''Unexpected Resource Configure Type''
            (''Expected *client.Client, got: '' @ type_name_of ProviderData @
             ''. Please report this issue to the provider developers.'')
            (Diagnostics resp)\<rparr>))"

text \<open>
  The mapping from the API's entity to the resource model. The model starts with a null
  \<open>source_repo_url\<close>, the zero value of the field.
\<close>

definition buildModel :: "CatalogTypeV2 \<Rightarrow> IncidentCatalogTypeResourceModel" where
  "buildModel catalogType =
     (let model = \<lparr>ID = StringValue (CatalogTypeV2.Id catalogType),
                   Name = StringValue (CatalogTypeV2.Name catalogType),
                   TypeName = StringValue (CatalogTypeV2.TypeName catalogType),
                   Description = StringValue (CatalogTypeV2.Description catalogType),
                   SourceRepoURL = StringNull\<rparr>
      in case CatalogTypeV2.SourceRepoUrl catalogType of
           None \<Rightarrow> model
         | Some url \<Rightarrow> model\<lparr>SourceRepoURL := StringValue url\<rparr>)"

text \<open>
  The error that Create, Read and Update hold after their API call: the transport error
  when there is one, otherwise, when the status code is 400 or more, an error made from
  the response's body with \<^verbatim>\<open>fmt.Errorf(string(result.Body))\<close>; otherwise none.
\<close>

definition status_error :: "(string \<Rightarrow> string) \<Rightarrow> 'a Result \<Rightarrow> string option" where
  "status_error verbs res =
     (case res of
        Inl err \<Rightarrow> Some err
      | Inr result \<Rightarrow>
          if StatusCode result \<ge> 400 then Some (Errorf verbs (Body result)) else None)"

text \<open>
  The lifecycle operations. Each takes what \<^verbatim>\<open>Get\<close> yields on the request's plan or
  state (its diagnostics, and the model pointer it fills, nil for a null object) and the
  response, and returns the response or panics. \<^verbatim>\<open>State.Set\<close> with a model stores it
  and gives no diagnostics; the trace line of Create writes to the log only. A nil
  \<^verbatim>\<open>data\<close>, a nil client and a nil \<^verbatim>\<open>JSON201\<close> or \<^verbatim>\<open>JSON200\<close> make the
  operation panic where it dereferences them. The request bodies are built as the
  operations build them, before the call.
\<close>

definition create_requestBody ::
  "IncidentCatalogTypeResource \<Rightarrow> IncidentCatalogTypeResourceModel \<Rightarrow> CreateTypeRequestBody" where
  "create_requestBody r data =
     (let requestBody =
            \<lparr>CreateTypeRequestBody.Name =
               ValueString (IncidentCatalogTypeResourceModel.Name data),
             Description = ValueString (IncidentCatalogTypeResourceModel.Description data),
             Annotations = Some [(''incident.io/terraform/version'', terraformVersion r)],
             TypeName = None,
             SourceRepoUrl = None\<rparr>;
          typeName = ValueString (IncidentCatalogTypeResourceModel.TypeName data);
          requestBody =
            (if typeName \<noteq> [] then requestBody\<lparr>CreateTypeRequestBody.TypeName := Some typeName\<rparr>
             else requestBody);
          sourceRepoURL = ValueString (SourceRepoURL data);
          requestBody =
            (if sourceRepoURL \<noteq> []
             then requestBody\<lparr>CreateTypeRequestBody.SourceRepoUrl := Some sourceRepoURL\<rparr>
             else requestBody)
      in requestBody)"

definition Create ::
  "(string \<Rightarrow> string) \<Rightarrow> IncidentCatalogTypeResource \<Rightarrow>
   IncidentCatalogTypeResourceModel option Get \<Rightarrow>
   IncidentCatalogTypeResourceModel StateResponse \<Rightarrow>
   IncidentCatalogTypeResourceModel StateResponse outcome" where
  "Create verbs r Plan resp0 =
     (let resp = resp0\<lparr>Diagnostics := Append (Diagnostics resp0) (fst Plan)\<rparr> in
      if HasError (Diagnostics resp) then Returned resp
      else case snd Plan of
        None \<Rightarrow> Panic nil_dereference
      | Some data \<Rightarrow>
         (let requestBody = create_requestBody r data in
          case client r of
            None \<Rightarrow> Panic nil_dereference
          | Some c \<Rightarrow>
             (let res = CatalogV2CreateTypeWithResponse c requestBody in
              case status_error verbs res of
                Some err \<Rightarrow>
                  Returned (resp\<lparr>Diagnostics := AddError ''Client Error''
                    (''Unable to create catalog type, got error: '' @ err) (Diagnostics resp)\<rparr>)
              | None \<Rightarrow>
                 (case res of
                    Inl err \<Rightarrow> Panic nil_dereference
                  | Inr result \<Rightarrow>
                     (case JSON result of
                        None \<Rightarrow> Panic nil_dereference
                      | Some catalogType \<Rightarrow>
                          Returned (resp\<lparr>State := Some (buildModel catalogType)\<rparr>))))))"

definition Read ::
  "(string \<Rightarrow> string) \<Rightarrow> IncidentCatalogTypeResource \<Rightarrow>
   IncidentCatalogTypeResourceModel option Get \<Rightarrow>
   IncidentCatalogTypeResourceModel StateResponse \<Rightarrow>
   IncidentCatalogTypeResourceModel StateResponse outcome" where
  "Read verbs r State_req resp0 =
     (let resp = resp0\<lparr>Diagnostics := Append (Diagnostics resp0) (fst State_req)\<rparr> in
      if HasError (Diagnostics resp) then Returned resp
      else case snd State_req of
        None \<Rightarrow> Panic nil_dereference
      | Some data \<Rightarrow>
         (case client r of
            None \<Rightarrow> Panic nil_dereference
          | Some c \<Rightarrow>
             (let res = CatalogV2ShowTypeWithResponse c (ValueString (ID data)) in
              case status_error verbs res of
                Some err \<Rightarrow>
                  Returned (resp\<lparr>Diagnostics := AddError ''Client Error''
                    (''Unable to read catalog type, got error: '' @ err) (Diagnostics resp)\<rparr>)
              | None \<Rightarrow>
                 (case res of
                    Inl err \<Rightarrow> Panic nil_dereference
                  | Inr result \<Rightarrow>
                     (case JSON result of
                        None \<Rightarrow> Panic nil_dereference
                      | Some catalogType \<Rightarrow>
                          Returned (resp\<lparr>State := Some (buildModel catalogType)\<rparr>))))))"

definition update_requestBody ::
  "IncidentCatalogTypeResource \<Rightarrow> IncidentCatalogTypeResourceModel \<Rightarrow>
   CatalogV2UpdateTypeJSONRequestBody" where
  "update_requestBody r data =
     (let requestBody =
            \<lparr>CatalogV2UpdateTypeJSONRequestBody.Name =
               ValueString (IncidentCatalogTypeResourceModel.Name data),
             Description = ValueString (IncidentCatalogTypeResourceModel.Description data),
             Annotations = Some [(''incident.io/terraform/version'', terraformVersion r)],
             SourceRepoUrl = None\<rparr>;
          sourceRepoURL = ValueString (SourceRepoURL data);
          requestBody =
            (if sourceRepoURL \<noteq> []
             then requestBody\<lparr>CatalogV2UpdateTypeJSONRequestBody.SourceRepoUrl := Some sourceRepoURL\<rparr>
             else requestBody)
      in requestBody)"

definition Update ::
  "(string \<Rightarrow> string) \<Rightarrow> IncidentCatalogTypeResource \<Rightarrow>
   IncidentCatalogTypeResourceModel option Get \<Rightarrow>
   IncidentCatalogTypeResourceModel StateResponse \<Rightarrow>
   IncidentCatalogTypeResourceModel StateResponse outcome" where
  "Update verbs r Plan resp0 =
     (let resp = resp0\<lparr>Diagnostics := Append (Diagnostics resp0) (fst Plan)\<rparr> in
      if HasError (Diagnostics resp) then Returned resp
      else case snd Plan of
        None \<Rightarrow> Panic nil_dereference
      | Some data \<Rightarrow>
         (let requestBody = update_requestBody r data in
          case client r of
            None \<Rightarrow> Panic nil_dereference
          | Some c \<Rightarrow>
             (let res = CatalogV2UpdateTypeWithResponse c (ValueString (ID data)) requestBody in
              case status_error verbs res of
                Some err \<Rightarrow>
                  Returned (resp\<lparr>Diagnostics := AddError ''Client Error''
                    (''Unable to update catalog type, got error: '' @ err) (Diagnostics resp)\<rparr>)
              | None \<Rightarrow>
                 (case res of
                    Inl err \<Rightarrow> Panic nil_dereference
                  | Inr result \<Rightarrow>
                     (case JSON result of
                        None \<Rightarrow> Panic nil_dereference
                      | Some catalogType \<Rightarrow>
                          Returned (resp\<lparr>State := Some (buildModel catalogType)\<rparr>))))))"

definition Delete ::
  "IncidentCatalogTypeResource \<Rightarrow> IncidentCatalogTypeResourceModel option Get \<Rightarrow>
   IncidentCatalogTypeResourceModel StateResponse \<Rightarrow>
   IncidentCatalogTypeResourceModel StateResponse outcome" where
  "Delete r State_req resp0 =
     (let resp = resp0\<lparr>Diagnostics := Append (Diagnostics resp0) (fst State_req)\<rparr> in
      if HasError (Diagnostics resp) then Returned resp
      else case snd State_req of
        None \<Rightarrow> Panic nil_dereference
      | Some data \<Rightarrow>
         (case client r of
            None \<Rightarrow> Panic nil_dereference
          | Some c \<Rightarrow>
             (case CatalogV2DestroyTypeWithResponse c (ValueString (ID data)) of
                Inl err \<Rightarrow>
                  Returned (resp\<lparr>Diagnostics := AddError ''Client Error''
                    (''Unable to delete catalog type, got error: '' @ err) (Diagnostics resp)\<rparr>)
              | Inr result \<Rightarrow> Returned resp)))"

text \<open>
  \<^verbatim>\<open>resource.ImportStatePassthroughID\<close> with the path \<^verbatim>\<open>path.Root("id")\<close> sets
  the attribute \<open>id\<close> of the response's state to the request's identifier. In a state
  that holds nothing yet, every other attribute is null.
\<close>

definition null_state :: IncidentCatalogTypeResourceModel where
  "null_state = \<lparr>ID = StringNull, Name = StringNull, TypeName = StringNull,
                  Description = StringNull, SourceRepoURL = StringNull\<rparr>"

definition SetAttribute_id ::
  "string \<Rightarrow> IncidentCatalogTypeResourceModel option \<Rightarrow> IncidentCatalogTypeResourceModel option" where
  "SetAttribute_id v st =
     Some ((case st of None \<Rightarrow> null_state | Some m \<Rightarrow> m)\<lparr>ID := StringValue v\<rparr>)"

definition ImportState ::
  "string \<Rightarrow> IncidentCatalogTypeResourceModel StateResponse \<Rightarrow>
   IncidentCatalogTypeResourceModel StateResponse" where
  "ImportState req_ID resp = resp\<lparr>State := SetAttribute_id req_ID (State resp)\<rparr>"

section \<open>The provider\<close>

record IncidentProvider =
  version :: string

record IncidentProviderModel =
  Endpoint :: String
  APIKey :: String

record provider_ConfigureResponse = ConfigureResponse +
  DataSourceData :: any
  ResourceData :: any

text \<open>
  The process environment is a map from names to values; \<^verbatim>\<open>os.Getenv\<close> gives the
  empty string for a variable that is not set.
\<close>

definition Getenv :: "(string \<rightharpoonup> string) \<Rightarrow> string \<Rightarrow> string" where
  "Getenv env key = (case env key of None \<Rightarrow> [] | Some v \<Rightarrow> v)"

text \<open>
  The bearer-token security provider and the options of the client's constructor are
  library values. The two constructors are parameters of \<open>provider_Configure\<close>: each
  gives an error (\<open>Inl\<close>, its message) or the value it constructed.
\<close>

datatype SecurityProviderBearerToken = SecurityProviderBearerToken string

datatype RequestEditorFn =
  Intercept SecurityProviderBearerToken
| AddHeader string string

datatype ClientOption =
  WithHTTPClient
| WithRequestEditorFn RequestEditorFn

text \<open>
  The provider's Configure. The endpoint and the API key are resolved as its first half
  does; the HTTP client with the logging transport is the option \<open>WithHTTPClient\<close>.
\<close>

definition resolve_endpoint :: "(string \<rightharpoonup> string) \<Rightarrow> IncidentProviderModel \<Rightarrow> string" where
  "resolve_endpoint env data =
     (let override = Getenv env ''INCIDENT_ENDPOINT'' in
      if override \<noteq> [] then override
      else if IsNull (Endpoint data) \<or> IsUnknown (Endpoint data) then ''https://api.incident.io''
      else ValueString (Endpoint data))"

definition resolve_apiKey :: "(string \<rightharpoonup> string) \<Rightarrow> IncidentProviderModel \<Rightarrow> string" where
  "resolve_apiKey env data =
     (if IsNull (APIKey data) \<or> IsUnknown (APIKey data) then Getenv env ''INCIDENT_API_KEY''
      else ValueString (APIKey data))"

definition provider_Configure ::
  "(string \<rightharpoonup> string) \<Rightarrow>
   (string \<Rightarrow> string + SecurityProviderBearerToken) \<Rightarrow>
   (string \<Rightarrow> ClientOption list \<Rightarrow> string + ClientWithResponses) \<Rightarrow>
   IncidentProvider \<Rightarrow> IncidentProviderModel Get \<Rightarrow> provider_ConfigureResponse \<Rightarrow>
   provider_ConfigureResponse outcome" where
  "provider_Configure env NewSecurityProviderBearerToken NewClientWithResponses p Config resp0 =
     (let resp = resp0\<lparr>Diagnostics := Append (Diagnostics resp0) (fst Config)\<rparr>;
          data = snd Config
      in
      if HasError (Diagnostics resp) then Returned resp
      else
        (let endpoint = resolve_endpoint env data;
             apiKey = resolve_apiKey env data
         in
         case NewSecurityProviderBearerToken apiKey of
           Inl bearerTokenProviderErr \<Rightarrow> Panic bearerTokenProviderErr
         | Inr bearerTokenProvider \<Rightarrow>
            (case NewClientWithResponses endpoint
                    [WithHTTPClient,
                     WithRequestEditorFn (Intercept bearerTokenProvider),
                     WithRequestEditorFn
                       (AddHeader ''user-agent'' (''terraform-provider-incident/'' @ version p))] of
               Inl err \<Rightarrow> Panic err
             | Inr c \<Rightarrow>
                 Returned (resp\<lparr>DataSourceData := ClientWithResponsesPtr c,
                                 ResourceData := ClientWithResponsesPtr c\<rparr>))))"

text \<open>
  The resource kinds the provider declares: the constructors of \<^verbatim>\<open>Resources\<close>, in
  its order.
\<close>

datatype resource_kind =
  NewIncidentCatalogEntryResource
| NewIncidentCatalogTypeAttributesResource
| NewIncidentCatalogTypeResource
| NewIncidentCustomFieldOptionResource
| NewIncidentCustomFieldResource
| NewIncidentRoleResource
| NewIncidentSeverityResource
| NewIncidentStatusResource

definition Resources :: "resource_kind list" where
  "Resources =
     [NewIncidentCatalogEntryResource,
      NewIncidentCatalogTypeAttributesResource,
      NewIncidentCatalogTypeResource,
      NewIncidentCustomFieldOptionResource,
      NewIncidentCustomFieldResource,
      NewIncidentRoleResource,
      NewIncidentSeverityResource,
      NewIncidentStatusResource]"

section \<open>The resource adapter of any kind\<close>

text \<open>
  Modelled from the spec: the adapters of the seven resource kinds other than the catalog
  type are declared by \<^verbatim>\<open>Resources\<close> but their files are not among the sources. The
  spec (4.2, Resource Adapter, generic pattern, replicated per kind) gives them one shape:
  Create calls the kind's create operation with a request body built from the plan model
  and, on success, rebuilds the model from the response's entity and writes it to the
  state; Read calls the show operation, keyed by the model's identifier, with the same
  handling of success and error; an error (a transport failure or a status of 400 or more)
  is reported as a diagnostic with a fixed label and a formatted message, and the state is
  left as it was. What differs from kind to kind is a parameter: the request body built
  from the model, the two operations of the client, the identifier of the model, the pure
  mapping from the API's entity to the model, the label and the messages. The plan and
  the state are read, and errors are made and reported, as the catalog type adapter does.
\<close>

record ('req, 'e, 'm) ResourceAdapter =
  build_request :: "'m \<Rightarrow> 'req"
  create_operation :: "'req \<Rightarrow> 'e Result"
  show_operation :: "string \<Rightarrow> 'e Result"
  model_identifier :: "'m \<Rightarrow> string"
  build_model :: "'e \<Rightarrow> 'm"
  error_label :: string
  create_message :: "string \<Rightarrow> string"
  read_message :: "string \<Rightarrow> string"

definition adapter_Create ::
  "(string \<Rightarrow> string) \<Rightarrow> ('req, 'e, 'm) ResourceAdapter \<Rightarrow> 'm option Get \<Rightarrow>
   'm StateResponse \<Rightarrow> 'm StateResponse outcome" where
  "adapter_Create verbs a Plan resp0 =
     (let resp = resp0\<lparr>Diagnostics := Append (Diagnostics resp0) (fst Plan)\<rparr> in
      if HasError (Diagnostics resp) then Returned resp
      else case snd Plan of
        None \<Rightarrow> Panic nil_dereference
      | Some data \<Rightarrow>
         (let res = create_operation a (build_request a data) in
          case status_error verbs res of
            Some err \<Rightarrow>
              Returned (resp\<lparr>Diagnostics :=
                AddError (error_label a) (create_message a err) (Diagnostics resp)\<rparr>)
          | None \<Rightarrow>
             (case res of
                Inl err \<Rightarrow> Panic nil_dereference
              | Inr result \<Rightarrow>
                 (case JSON result of
                    None \<Rightarrow> Panic nil_dereference
                  | Some entity \<Rightarrow> Returned (resp\<lparr>State := Some (build_model a entity)\<rparr>)))))"

definition adapter_Read ::
  "(string \<Rightarrow> string) \<Rightarrow> ('req, 'e, 'm) ResourceAdapter \<Rightarrow> 'm option Get \<Rightarrow>
   'm StateResponse \<Rightarrow> 'm StateResponse outcome" where
  "adapter_Read verbs a State_req resp0 =
     (let resp = resp0\<lparr>Diagnostics := Append (Diagnostics resp0) (fst State_req)\<rparr> in
      if HasError (Diagnostics resp) then Returned resp
      else case snd State_req of
        None \<Rightarrow> Panic nil_dereference
      | Some data \<Rightarrow>
         (let res = show_operation a (model_identifier a data) in
          case status_error verbs res of
            Some err \<Rightarrow>
              Returned (resp\<lparr>Diagnostics :=
                AddError (error_label a) (read_message a err) (Diagnostics resp)\<rparr>)
          | None \<Rightarrow>
             (case res of
                Inl err \<Rightarrow> Panic nil_dereference
              | Inr result \<Rightarrow>
                 (case JSON result of
                    None \<Rightarrow> Panic nil_dereference
                  | Some entity \<Rightarrow> Returned (resp\<lparr>State := Some (build_model a entity)\<rparr>)))))"

text \<open>
  The catalog type adapter of the sources, bound to a client, as an adapter of this shape:
  its parameters are the parts of \<open>Create\<close> and \<open>Read\<close>.
\<close>

definition catalog_type_adapter ::
  "IncidentCatalogTypeResource \<Rightarrow> ClientWithResponses \<Rightarrow>
   (CreateTypeRequestBody, CatalogTypeV2, IncidentCatalogTypeResourceModel) ResourceAdapter" where
  "catalog_type_adapter r c =
     \<lparr>build_request = create_requestBody r,
      create_operation = CatalogV2CreateTypeWithResponse c,
      show_operation = CatalogV2ShowTypeWithResponse c,
      model_identifier = (\<lambda>data. ValueString (ID data)),
      build_model = buildModel,
      error_label = ''Client Error'',
      create_message = (\<lambda>err. ''Unable to create catalog type, got error: '' @ err),
      read_message = (\<lambda>err. ''Unable to read catalog type, got error: '' @ err)\<rparr>"

section \<open>Failed calls and example values\<close>

text \<open>
  A call of the API failed when it gave a transport error or a response whose status
  code is 400 or more: the condition under which \<open>Create\<close>, \<open>Read\<close> and \<open>Update\<close>
  hold an error after the call.
\<close>

definition failed :: "'a Result \<Rightarrow> bool" where
  "failed res = (case res of Inl err \<Rightarrow> True | Inr result \<Rightarrow> StatusCode result \<ge> 400)"

text \<open>
  Values for the examples: a catalog type entity as the API returns it, the plan that asks
  for it, a client whose calls succeed with that entity, a client that answers every
  call with status 404, a resource bound to each client, and a response without state.
\<close>

definition team_entity :: CatalogTypeV2 where
  "team_entity = \<lparr>Id = ''01GW2G3V0S59R238FAHPDS1R66'', Name = ''Team'', TypeName = ''Custom[Team]'',
                   Description = ''Owning team'', SourceRepoUrl = None\<rparr>"

definition team_plan :: IncidentCatalogTypeResourceModel where
  "team_plan = \<lparr>ID = StringUnknown, Name = StringValue ''Team'', TypeName = StringUnknown,
                 Description = StringValue ''Owning team'', SourceRepoURL = StringNull\<rparr>"

definition ok_client :: ClientWithResponses where
  "ok_client =
     \<lparr>CatalogV2CreateTypeWithResponse =
        (\<lambda>body. Inr \<lparr>StatusCode = 201, Body = [], JSON = Some team_entity\<rparr>),
      CatalogV2ShowTypeWithResponse =
        (\<lambda>id. Inr \<lparr>StatusCode = 200, Body = [], JSON = Some team_entity\<rparr>),
      CatalogV2UpdateTypeWithResponse =
        (\<lambda>id body. Inr \<lparr>StatusCode = 200, Body = [], JSON = Some team_entity\<rparr>),
      CatalogV2DestroyTypeWithResponse =
        (\<lambda>id. Inr \<lparr>StatusCode = 204, Body = [], JSON = None\<rparr>)\<rparr>"

definition not_found_client :: ClientWithResponses where
  "not_found_client =
     \<lparr>CatalogV2CreateTypeWithResponse =
        (\<lambda>body. Inr \<lparr>StatusCode = 404, Body = ''not found'', JSON = None\<rparr>),
      CatalogV2ShowTypeWithResponse =
        (\<lambda>id. Inr \<lparr>StatusCode = 404, Body = ''not found'', JSON = None\<rparr>),
      CatalogV2UpdateTypeWithResponse =
        (\<lambda>id body. Inr \<lparr>StatusCode = 404, Body = ''not found'', JSON = None\<rparr>),
      CatalogV2DestroyTypeWithResponse =
        (\<lambda>id. Inr \<lparr>StatusCode = 404, Body = ''not found'', JSON = None\<rparr>)\<rparr>"

definition r_ok :: IncidentCatalogTypeResource where
  "r_ok = \<lparr>client = Some ok_client, terraformVersion = ''1.5.7''\<rparr>"

definition r_not_found :: IncidentCatalogTypeResource where
  "r_not_found = \<lparr>client = Some not_found_client, terraformVersion = ''1.5.7''\<rparr>"

definition no_state :: "IncidentCatalogTypeResourceModel StateResponse" where
  "no_state = \<lparr>Diagnostics = [], State = None\<rparr>"

text \<open>
  Two more values for the examples: an adapter of the general shape, whose entity and model
  are a pair of an identifier and a name, and a plan of a catalog type with an empty type
  name and a source repository URL.
\<close>

definition example_adapter :: "(string, string \<times> string, string \<times> string) ResourceAdapter" where
  "example_adapter =
     \<lparr>build_request = snd,
      create_operation = (\<lambda>name. Inr \<lparr>StatusCode = 201, Body = [], JSON = Some (''01H0'', name)\<rparr>),
      show_operation = (\<lambda>id. Inr \<lparr>StatusCode = 200, Body = [], JSON = Some (id, ''Major'')\<rparr>),
      model_identifier = fst,
      build_model = (\<lambda>entity. entity),
      error_label = ''Client Error'',
      create_message = (\<lambda>err. ''Unable to create, got error: '' @ err),
      read_message = (\<lambda>err. ''Unable to read, got error: '' @ err)\<rparr>"

definition repo_plan :: IncidentCatalogTypeResourceModel where
  "repo_plan = \<lparr>ID = StringUnknown, Name = StringValue ''Team'', TypeName = StringValue [],
                 Description = StringValue ''Owning team'',
                 SourceRepoURL = StringValue ''https://example.test/repo''\<rparr>"

section \<open>Properties\<close>

subsection \<open>Diagnostics and the paths of the operations\<close>

lemma HasError_iff: "HasError diags = (\<exists>d \<in> set diags. Severity d = SeverityError)"
  by (simp add: HasError_def list_ex_iff)

lemma AddError_fresh:
  "\<not> HasError diags \<Longrightarrow>
   AddError summary detail diags =
     diags @ [\<lparr>Severity = SeverityError, Summary = summary, Detail = detail\<rparr>]"
  by (auto simp: AddError_def HasError_iff)

lemma HasError_AddError: "HasError (AddError summary detail diags)"
proof (cases "\<lparr>Severity = SeverityError, Summary = summary, Detail = detail\<rparr> \<in> set diags")
  case True
  then have "\<exists>d \<in> set diags. Severity d = SeverityError"
    by (rule bexI [rotated]) simp
  with True show ?thesis by (simp add: AddError_def HasError_iff)
next
  case False
  then show ?thesis by (simp add: AddError_def HasError_iff)
qed

lemma failed_status_error: "failed res \<Longrightarrow> \<exists>err. status_error verbs res = Some err"
  by (cases res) (auto simp: failed_def status_error_def)

lemma Create_error:
  assumes "client r = Some c" and "snd Plan = Some data"
    and "\<not> HasError (Append (Diagnostics resp) (fst Plan))"
    and "status_error verbs (CatalogV2CreateTypeWithResponse c (create_requestBody r data)) = Some err"
  shows "Create verbs r Plan resp =
     Returned (resp\<lparr>Diagnostics := Append (Diagnostics resp) (fst Plan) @
       [\<lparr>Severity = SeverityError, Summary = ''Client Error'',
         Detail = ''Unable to create catalog type, got error: '' @ err\<rparr>]\<rparr>)"
  using assms by (simp add: Create_def Let_def AddError_fresh)

lemma Read_error:
  assumes "client r = Some c" and "snd State_req = Some data"
    and "\<not> HasError (Append (Diagnostics resp) (fst State_req))"
    and "status_error verbs (CatalogV2ShowTypeWithResponse c (ValueString (ID data))) = Some err"
  shows "Read verbs r State_req resp =
     Returned (resp\<lparr>Diagnostics := Append (Diagnostics resp) (fst State_req) @
       [\<lparr>Severity = SeverityError, Summary = ''Client Error'',
         Detail = ''Unable to read catalog type, got error: '' @ err\<rparr>]\<rparr>)"
  using assms by (simp add: Read_def Let_def AddError_fresh)

lemma Update_error:
  assumes "client r = Some c" and "snd Plan = Some data"
    and "\<not> HasError (Append (Diagnostics resp) (fst Plan))"
    and "status_error verbs
           (CatalogV2UpdateTypeWithResponse c (ValueString (ID data)) (update_requestBody r data)) =
         Some err"
  shows "Update verbs r Plan resp =
     Returned (resp\<lparr>Diagnostics := Append (Diagnostics resp) (fst Plan) @
       [\<lparr>Severity = SeverityError, Summary = ''Client Error'',
         Detail = ''Unable to update catalog type, got error: '' @ err\<rparr>]\<rparr>)"
  using assms by (simp add: Update_def Let_def AddError_fresh)

lemma Create_success:
  assumes "client r = Some c" and "snd Plan = Some data"
    and "\<not> HasError (Append (Diagnostics resp) (fst Plan))"
    and "CatalogV2CreateTypeWithResponse c (create_requestBody r data) = Inr result"
    and "StatusCode result < 400" and "JSON result = Some e"
  shows "Create verbs r Plan resp =
     Returned (resp\<lparr>Diagnostics := Append (Diagnostics resp) (fst Plan), State := Some (buildModel e)\<rparr>)"
  using assms by (simp add: Create_def Let_def status_error_def)

lemma Read_success:
  assumes "client r = Some c" and "snd State_req = Some data"
    and "\<not> HasError (Append (Diagnostics resp) (fst State_req))"
    and "CatalogV2ShowTypeWithResponse c (ValueString (ID data)) = Inr result"
    and "StatusCode result < 400" and "JSON result = Some e"
  shows "Read verbs r State_req resp =
     Returned (resp\<lparr>Diagnostics := Append (Diagnostics resp) (fst State_req),
                      State := Some (buildModel e)\<rparr>)"
  using assms by (simp add: Read_def Let_def status_error_def)

lemma provider_Configure_run:
  assumes "\<not> HasError (Append (Diagnostics resp) (fst Config))"
  shows "provider_Configure env nb nc p Config resp =
    (case nb (resolve_apiKey env (snd Config)) of
       Inl e \<Rightarrow> Panic e
     | Inr b \<Rightarrow>
        (case nc (resolve_endpoint env (snd Config))
                [WithHTTPClient, WithRequestEditorFn (Intercept b),
                 WithRequestEditorFn
                   (AddHeader ''user-agent'' (''terraform-provider-incident/'' @ version p))] of
           Inl e \<Rightarrow> Panic e
         | Inr c \<Rightarrow>
            Returned (resp\<lparr>Diagnostics := Append (Diagnostics resp) (fst Config),
                            DataSourceData := ClientWithResponsesPtr c,
                            ResourceData := ClientWithResponsesPtr c\<rparr>)))"
  using assms by (simp add: provider_Configure_def Let_def split: sum.splits)

lemma ID_buildModel: "ValueString (ID (buildModel e)) = CatalogTypeV2.Id e"
  by (cases "CatalogTypeV2.SourceRepoUrl e") (simp_all add: buildModel_def)

lemma error_detail_is_body:
  assumes "client r = Some c" and "snd Plan = Some data"
    and "\<not> HasError (Append (Diagnostics resp) (fst Plan))"
    and "CatalogV2CreateTypeWithResponse c (create_requestBody r data) = Inr result"
    and "StatusCode result \<ge> 400" and "CHR ''%'' \<notin> set (Body result)"
  shows "Create verbs r Plan resp =
     Returned (resp\<lparr>Diagnostics := Append (Diagnostics resp) (fst Plan) @
       [\<lparr>Severity = SeverityError, Summary = ''Client Error'',
         Detail = ''Unable to create catalog type, got error: '' @ Body result\<rparr>]\<rparr>)"
  by (rule Create_error [OF assms(1-3)]) (simp add: assms(4-6) status_error_def Errorf_def)

subsection \<open>The adapter of any kind, and the request bodies\<close>

lemma Create_is_adapter_Create:
  "client r = Some c \<Longrightarrow> Create verbs r = adapter_Create verbs (catalog_type_adapter r c)"
  by (intro ext) (simp add: Create_def adapter_Create_def catalog_type_adapter_def Let_def
        split: option.splits sum.splits)

lemma Read_is_adapter_Read:
  "client r = Some c \<Longrightarrow> Read verbs r = adapter_Read verbs (catalog_type_adapter r c)"
  by (intro ext) (simp add: Read_def adapter_Read_def catalog_type_adapter_def Let_def
        split: option.splits sum.splits)

lemma adapter_Create_success:
  assumes "snd Plan = Some data"
    and "\<not> HasError (Append (Diagnostics resp) (fst Plan))"
    and "create_operation a (build_request a data) = Inr result"
    and "StatusCode result < 400" and "JSON result = Some e"
  shows "adapter_Create verbs a Plan resp =
     Returned (resp\<lparr>Diagnostics := Append (Diagnostics resp) (fst Plan),
                     State := Some (build_model a e)\<rparr>)"
  using assms by (simp add: adapter_Create_def Let_def status_error_def)

lemma adapter_Read_success:
  assumes "snd State_req = Some data"
    and "\<not> HasError (Append (Diagnostics resp) (fst State_req))"
    and "show_operation a (model_identifier a data) = Inr result"
    and "StatusCode result < 400" and "JSON result = Some e"
  shows "adapter_Read verbs a State_req resp =
     Returned (resp\<lparr>Diagnostics := Append (Diagnostics resp) (fst State_req),
                     State := Some (build_model a e)\<rparr>)"
  using assms by (simp add: adapter_Read_def Let_def status_error_def)

lemma Update_success:
  assumes "client r = Some c" and "snd Plan = Some data"
    and "\<not> HasError (Append (Diagnostics resp) (fst Plan))"
    and "CatalogV2UpdateTypeWithResponse c (ValueString (ID data)) (update_requestBody r data) =
         Inr result"
    and "StatusCode result < 400" and "JSON result = Some e"
  shows "Update verbs r Plan resp =
     Returned (resp\<lparr>Diagnostics := Append (Diagnostics resp) (fst Plan), State := Some (buildModel e)\<rparr>)"
  using assms by (simp add: Update_def Let_def status_error_def)

lemma Resources_all_kinds: "k \<in> set Resources"
  by (cases k) (simp_all add: Resources_def)

lemma create_requestBody_empty_TypeName:
  "create_requestBody r (data\<lparr>IncidentCatalogTypeResourceModel.TypeName := StringValue []\<rparr>) =
     create_requestBody r (data\<lparr>IncidentCatalogTypeResourceModel.TypeName := StringNull\<rparr>)"
  by (simp add: create_requestBody_def Let_def)

lemma create_requestBody_empty_SourceRepoURL:
  "create_requestBody r (data\<lparr>SourceRepoURL := StringValue []\<rparr>) =
     create_requestBody r (data\<lparr>SourceRepoURL := StringNull\<rparr>)"
  by (simp add: create_requestBody_def Let_def)

lemma update_requestBody_empty_SourceRepoURL:
  "update_requestBody r (data\<lparr>SourceRepoURL := StringValue []\<rparr>) =
     update_requestBody r (data\<lparr>SourceRepoURL := StringNull\<rparr>)"
  by (simp add: update_requestBody_def Let_def)

lemma Create_body_only:
  "create_requestBody r data = create_requestBody r data' \<Longrightarrow>
   Create verbs r (diags, Some data) resp = Create verbs r (diags, Some data') resp"
  by (cases "client r") (simp_all add: Create_def Let_def)

lemma Update_body_and_ID_only:
  "update_requestBody r data = update_requestBody r data' \<Longrightarrow> ID data = ID data' \<Longrightarrow>
   Update verbs r (diags, Some data) resp = Update verbs r (diags, Some data') resp"
  by (cases "client r") (simp_all add: Update_def Let_def)

subsection \<open>The claims\<close>

text \<open>C1: every lifecycle operation, Delete among them, is to add a diagnostic that holds
  the raw response body when the API answers with a status of 400 or more. \<open>Delete\<close>
  looks at the transport error only: here the destroy call answers 404 with the body
  \<open>not found\<close>, and \<open>Delete\<close> returns with no diagnostic at all.\<close>

theorem Delete_swallows_status_404:
  "CatalogV2DestroyTypeWithResponse not_found_client ''01GW2G3V0S59R238FAHPDS1R66'' =
     Inr \<lparr>StatusCode = 404, Body = ''not found'', JSON = None\<rparr> \<and>
   Delete r_not_found ([], Some (buildModel team_entity))
          \<lparr>Diagnostics = [], State = Some (buildModel team_entity)\<rparr> =
     Returned \<lparr>Diagnostics = [], State = Some (buildModel team_entity)\<rparr>"
  by (simp add: Delete_def r_not_found_def not_found_client_def HasError_def buildModel_def
        team_entity_def)

text \<open>C2: after the provider's Configure has run without error, the resource's Configure is
  to accept the provider's \<open>ResourceData\<close> and store the shared client. The provider sets
  \<open>ResourceData\<close> to the client pointer itself, the resource asserts a pointer to
  \<open>IncidentProviderData\<close>: the assertion fails, the resource adds the diagnostic
  \<open>Unexpected Resource Configure Type\<close> and its client stays nil.\<close>

theorem resource_Configure_rejects_provider_ResourceData:
  "provider_Configure Map.empty (\<lambda>apiKey. Inr (SecurityProviderBearerToken apiKey))
       (\<lambda>endpoint opts. Inr ok_client) \<lparr>version = ''dev''\<rparr>
       ([], \<lparr>Endpoint = StringNull, APIKey = StringValue ''key''\<rparr>)
       \<lparr>Diagnostics = [], DataSourceData = NilInterface, ResourceData = NilInterface\<rparr> =
     Returned \<lparr>Diagnostics = [], DataSourceData = ClientWithResponsesPtr ok_client,
               ResourceData = ClientWithResponsesPtr ok_client\<rparr> \<and>
   resource_Configure \<lparr>client = None, terraformVersion = []\<rparr> (ClientWithResponsesPtr ok_client)
       \<lparr>Diagnostics = []\<rparr> =
     Returned (\<lparr>client = None, terraformVersion = []\<rparr>,
       \<lparr>Diagnostics = [\<lparr>Severity = SeverityError, Summary = ''Unexpected Resource Configure Type'',
          Detail = ''Expected *client.Client, got: *client.ClientWithResponses. Please report this issue to the provider developers.''\<rparr>]\<rparr>)"
  by (simp add: provider_Configure_def resource_Configure_def HasError_def AddError_def)

text \<open>C3: when the API call of Create, Read or Update failed (a transport error, or a status
  of 400 or more), the operation returns a response whose state is the state it was given,
  and whose diagnostics are the ones it had plus one error diagnostic \<open>Client Error\<close>:
  it returns before the state is written.\<close>

theorem error_aborts_before_state_write:
  assumes "client r = Some c" and "snd req = Some data"
    and "\<not> HasError (Append (Diagnostics resp) (fst req))"
  shows
   "(failed (CatalogV2CreateTypeWithResponse c (create_requestBody r data)) \<longrightarrow>
      (\<exists>resp' err. Create verbs r req resp = Returned resp' \<and> State resp' = State resp \<and>
         Diagnostics resp' = Append (Diagnostics resp) (fst req) @
           [\<lparr>Severity = SeverityError, Summary = ''Client Error'',
             Detail = ''Unable to create catalog type, got error: '' @ err\<rparr>])) \<and>
    (failed (CatalogV2ShowTypeWithResponse c (ValueString (ID data))) \<longrightarrow>
      (\<exists>resp' err. Read verbs r req resp = Returned resp' \<and> State resp' = State resp \<and>
         Diagnostics resp' = Append (Diagnostics resp) (fst req) @
           [\<lparr>Severity = SeverityError, Summary = ''Client Error'',
             Detail = ''Unable to read catalog type, got error: '' @ err\<rparr>])) \<and>
    (failed (CatalogV2UpdateTypeWithResponse c (ValueString (ID data)) (update_requestBody r data)) \<longrightarrow>
      (\<exists>resp' err. Update verbs r req resp = Returned resp' \<and> State resp' = State resp \<and>
         Diagnostics resp' = Append (Diagnostics resp) (fst req) @
           [\<lparr>Severity = SeverityError, Summary = ''Client Error'',
             Detail = ''Unable to update catalog type, got error: '' @ err\<rparr>]))"
proof (intro conjI impI)
  assume "failed (CatalogV2CreateTypeWithResponse c (create_requestBody r data))"
  then obtain err where
    "status_error verbs (CatalogV2CreateTypeWithResponse c (create_requestBody r data)) = Some err"
    using failed_status_error by blast
  from Create_error [OF assms this]
  show "\<exists>resp' err. Create verbs r req resp = Returned resp' \<and> State resp' = State resp \<and>
         Diagnostics resp' = Append (Diagnostics resp) (fst req) @
           [\<lparr>Severity = SeverityError, Summary = ''Client Error'',
             Detail = ''Unable to create catalog type, got error: '' @ err\<rparr>]"
    by simp
next
  assume "failed (CatalogV2ShowTypeWithResponse c (ValueString (ID data)))"
  then obtain err where
    "status_error verbs (CatalogV2ShowTypeWithResponse c (ValueString (ID data))) = Some err"
    using failed_status_error by blast
  from Read_error [OF assms this]
  show "\<exists>resp' err. Read verbs r req resp = Returned resp' \<and> State resp' = State resp \<and>
         Diagnostics resp' = Append (Diagnostics resp) (fst req) @
           [\<lparr>Severity = SeverityError, Summary = ''Client Error'',
             Detail = ''Unable to read catalog type, got error: '' @ err\<rparr>]"
    by simp
next
  assume "failed (CatalogV2UpdateTypeWithResponse c (ValueString (ID data)) (update_requestBody r data))"
  then obtain err where
    "status_error verbs
       (CatalogV2UpdateTypeWithResponse c (ValueString (ID data)) (update_requestBody r data)) = Some err"
    using failed_status_error by blast
  from Update_error [OF assms this]
  show "\<exists>resp' err. Update verbs r req resp = Returned resp' \<and> State resp' = State resp \<and>
         Diagnostics resp' = Append (Diagnostics resp) (fst req) @
           [\<lparr>Severity = SeverityError, Summary = ''Client Error'',
             Detail = ''Unable to update catalog type, got error: '' @ err\<rparr>]"
    by simp
qed

text \<open>The theorem at a client that answers every call with status 404: each of the three
  operations returns with the error diagnostic and the state left as it was.\<close>

theorem error_aborts_before_state_write_witness:
  "failed (CatalogV2CreateTypeWithResponse not_found_client (create_requestBody r_not_found team_plan)) \<and>
   (\<exists>resp' err. Create (\<lambda>s. s) r_not_found ([], Some team_plan) no_state = Returned resp' \<and>
      State resp' = State no_state \<and>
      Diagnostics resp' = Append (Diagnostics no_state) (fst ([], Some team_plan)) @
        [\<lparr>Severity = SeverityError, Summary = ''Client Error'',
          Detail = ''Unable to create catalog type, got error: '' @ err\<rparr>]) \<and>
   failed (CatalogV2ShowTypeWithResponse not_found_client (ValueString (ID team_plan))) \<and>
   (\<exists>resp' err. Read (\<lambda>s. s) r_not_found ([], Some team_plan) no_state = Returned resp' \<and>
      State resp' = State no_state \<and>
      Diagnostics resp' = Append (Diagnostics no_state) (fst ([], Some team_plan)) @
        [\<lparr>Severity = SeverityError, Summary = ''Client Error'',
          Detail = ''Unable to read catalog type, got error: '' @ err\<rparr>]) \<and>
   failed (CatalogV2UpdateTypeWithResponse not_found_client (ValueString (ID team_plan))
             (update_requestBody r_not_found team_plan)) \<and>
   (\<exists>resp' err. Update (\<lambda>s. s) r_not_found ([], Some team_plan) no_state = Returned resp' \<and>
      State resp' = State no_state \<and>
      Diagnostics resp' = Append (Diagnostics no_state) (fst ([], Some team_plan)) @
        [\<lparr>Severity = SeverityError, Summary = ''Client Error'',
          Detail = ''Unable to update catalog type, got error: '' @ err\<rparr>])"
proof -
  have h1: "client r_not_found = Some not_found_client"
    by (simp add: r_not_found_def)
  have h2: "snd ([], Some team_plan) = Some team_plan"
    by simp
  have h3: "\<not> HasError (Append (Diagnostics no_state) (fst ([], Some team_plan)))"
    by (simp add: no_state_def HasError_def)
  have f1: "failed (CatalogV2CreateTypeWithResponse not_found_client
                     (create_requestBody r_not_found team_plan))"
    by (simp add: not_found_client_def failed_def)
  have f2: "failed (CatalogV2ShowTypeWithResponse not_found_client (ValueString (ID team_plan)))"
    by (simp add: not_found_client_def failed_def)
  have f3: "failed (CatalogV2UpdateTypeWithResponse not_found_client (ValueString (ID team_plan))
             (update_requestBody r_not_found team_plan))"
    by (simp add: not_found_client_def failed_def)
  show ?thesis
    using error_aborts_before_state_write [OF h1 h2 h3, of "\<lambda>s. s"] f1 f2 f3 by blast
qed

text \<open>C4: the endpoint that Configure resolves is the environment variable
  \<open>INCIDENT_ENDPOINT\<close> when it is not empty, otherwise the configured value when it is
  known and not null, otherwise \<open>https://api.incident.io\<close>; the credential is the configured
  value when it is known and not null, otherwise the environment variable
  \<open>INCIDENT_API_KEY\<close>. When reading the config gave no error, Configure builds the token
  provider from that credential and the client from that endpoint.\<close>

theorem endpoint_and_credential_precedence:
  assumes "\<not> HasError (Append (Diagnostics resp) (fst Config))"
  shows "resolve_endpoint env (snd Config) =
      (if Getenv env ''INCIDENT_ENDPOINT'' \<noteq> [] then Getenv env ''INCIDENT_ENDPOINT''
       else case Endpoint (snd Config) of
              StringValue s \<Rightarrow> s
            | _ \<Rightarrow> ''https://api.incident.io'') \<and>
    resolve_apiKey env (snd Config) =
      (case APIKey (snd Config) of
         StringValue k \<Rightarrow> k
       | _ \<Rightarrow> Getenv env ''INCIDENT_API_KEY'') \<and>
    provider_Configure env nb nc p Config resp =
    (case nb (resolve_apiKey env (snd Config)) of
       Inl e \<Rightarrow> Panic e
     | Inr b \<Rightarrow>
        (case nc (resolve_endpoint env (snd Config))
                [WithHTTPClient, WithRequestEditorFn (Intercept b),
                 WithRequestEditorFn
                   (AddHeader ''user-agent'' (''terraform-provider-incident/'' @ version p))] of
           Inl e \<Rightarrow> Panic e
         | Inr c \<Rightarrow>
            Returned (resp\<lparr>Diagnostics := Append (Diagnostics resp) (fst Config),
                            DataSourceData := ClientWithResponsesPtr c,
                            ResourceData := ClientWithResponsesPtr c\<rparr>)))"
proof (intro conjI)
  show "resolve_endpoint env (snd Config) =
      (if Getenv env ''INCIDENT_ENDPOINT'' \<noteq> [] then Getenv env ''INCIDENT_ENDPOINT''
       else case Endpoint (snd Config) of
              StringValue s \<Rightarrow> s
            | _ \<Rightarrow> ''https://api.incident.io'')"
    by (cases "Endpoint (snd Config)") (simp_all add: resolve_endpoint_def Let_def)
  show "resolve_apiKey env (snd Config) =
      (case APIKey (snd Config) of
         StringValue k \<Rightarrow> k
       | _ \<Rightarrow> Getenv env ''INCIDENT_API_KEY'')"
    by (cases "APIKey (snd Config)") (simp_all add: resolve_apiKey_def)
qed (rule provider_Configure_run [OF assms])

text \<open>The theorem where the endpoint is configured and the credential is not: the endpoint is
  the configured one, the credential comes from the environment, Configure returns the
  client.\<close>

theorem endpoint_and_credential_precedence_witness:
  "resolve_endpoint [''INCIDENT_API_KEY'' \<mapsto> ''from-env'']
      \<lparr>Endpoint = StringValue ''https://example.test'', APIKey = StringNull\<rparr> = ''https://example.test'' \<and>
   resolve_apiKey [''INCIDENT_API_KEY'' \<mapsto> ''from-env'']
      \<lparr>Endpoint = StringValue ''https://example.test'', APIKey = StringNull\<rparr> = ''from-env'' \<and>
   provider_Configure [''INCIDENT_API_KEY'' \<mapsto> ''from-env'']
       (\<lambda>apiKey. Inr (SecurityProviderBearerToken apiKey))
       (\<lambda>endpoint opts. Inr ok_client) \<lparr>version = ''dev''\<rparr>
       ([], \<lparr>Endpoint = StringValue ''https://example.test'', APIKey = StringNull\<rparr>)
       \<lparr>Diagnostics = [], DataSourceData = NilInterface, ResourceData = NilInterface\<rparr> =
     Returned \<lparr>Diagnostics = [], DataSourceData = ClientWithResponsesPtr ok_client,
               ResourceData = ClientWithResponsesPtr ok_client\<rparr>"
  using endpoint_and_credential_precedence
          [of "\<lparr>Diagnostics = [], DataSourceData = NilInterface, ResourceData = NilInterface\<rparr>"
              "([], \<lparr>Endpoint = StringValue ''https://example.test'', APIKey = StringNull\<rparr>)"
              "[''INCIDENT_API_KEY'' \<mapsto> ''from-env'']"
              "\<lambda>apiKey. Inr (SecurityProviderBearerToken apiKey)"
              "\<lambda>endpoint opts. Inr ok_client" "\<lparr>version = ''dev''\<rparr>"]
  by (simp add: HasError_def Getenv_def)

text \<open>C5: the request body that Update sends does not depend on the plan's type name, and
  neither does anything else Update does: whatever the plan's \<open>type_name\<close>, the update
  call gets the same body, which has no field for the type name.\<close>

theorem Update_never_sends_type_name:
  "update_requestBody r (data\<lparr>IncidentCatalogTypeResourceModel.TypeName := t\<rparr>) =
     update_requestBody r data \<and>
   Update verbs r (diags, Some (data\<lparr>IncidentCatalogTypeResourceModel.TypeName := t\<rparr>)) resp =
     Update verbs r (diags, Some data) resp"
proof -
  have body: "update_requestBody r (data\<lparr>IncidentCatalogTypeResourceModel.TypeName := t\<rparr>) =
     update_requestBody r data"
    by (simp add: update_requestBody_def)
  have "Update verbs r (diags, Some (data\<lparr>IncidentCatalogTypeResourceModel.TypeName := t\<rparr>)) resp =
     Update verbs r (diags, Some data) resp"
    by (cases "client r") (simp_all add: Update_def Let_def body)
  with body show ?thesis by simp
qed

text \<open>C6: for every resource kind the provider declares, when Create succeeds with an
  entity in its response, and the Read that follows it (on the state Create wrote, keyed by
  the model's identifier) receives the same entity, Read writes to the state the very model
  Create wrote: the model built from that entity. The first half is the adapter of any
  kind, as the spec gives its shape; the second half is the catalog type adapter of the
  sources.\<close>

theorem Create_then_Read_same_model:
  fixes adapter :: "resource_kind \<Rightarrow> ('req, 'e, 'm) ResourceAdapter"
  shows
   "(k \<in> set Resources \<and> snd PlanK = Some dataK \<and>
     \<not> HasError (Append (Diagnostics respK) (fst PlanK)) \<and>
     create_operation (adapter k) (build_request (adapter k) dataK) = Inr createdK \<and>
     StatusCode createdK < 400 \<and> JSON createdK = Some entity \<and>
     show_operation (adapter k) (model_identifier (adapter k) (build_model (adapter k) entity)) =
       Inr shownK \<and>
     StatusCode shownK < 400 \<and> JSON shownK = Some entity \<and>
     \<not> HasError (Diagnostics respKR) \<longrightarrow>
     (\<exists>resp1 resp2.
        adapter_Create verbs (adapter k) PlanK respK = Returned resp1 \<and>
        adapter_Read verbs (adapter k) ([], State resp1) respKR = Returned resp2 \<and>
        State resp1 = Some (build_model (adapter k) entity) \<and>
        State resp2 = State resp1)) \<and>
    (client r = Some c \<and> snd Plan = Some data \<and>
     \<not> HasError (Append (Diagnostics resp0) (fst Plan)) \<and>
     CatalogV2CreateTypeWithResponse c (create_requestBody r data) = Inr created \<and>
     StatusCode created < 400 \<and> JSON created = Some e \<and>
     CatalogV2ShowTypeWithResponse c (CatalogTypeV2.Id e) = Inr shown \<and>
     StatusCode shown < 400 \<and> JSON shown = Some e \<and>
     \<not> HasError (Diagnostics respR) \<longrightarrow>
     (\<exists>resp1 resp2.
        Create verbs r Plan resp0 = Returned resp1 \<and>
        Read verbs r ([], State resp1) respR = Returned resp2 \<and>
        State resp1 = Some (buildModel e) \<and>
        State resp2 = State resp1))"
proof (intro conjI impI; elim conjE)
  let ?a = "adapter k"
  assume plan: "snd PlanK = Some dataK"
    and ok: "\<not> HasError (Append (Diagnostics respK) (fst PlanK))"
    and cr: "create_operation ?a (build_request ?a dataK) = Inr createdK"
       "StatusCode createdK < 400" "JSON createdK = Some entity"
    and sh: "show_operation ?a (model_identifier ?a (build_model ?a entity)) = Inr shownK"
       "StatusCode shownK < 400" "JSON shownK = Some entity"
    and okR: "\<not> HasError (Diagnostics respKR)"
  have c: "adapter_Create verbs ?a PlanK respK =
      Returned (respK\<lparr>Diagnostics := Append (Diagnostics respK) (fst PlanK),
                       State := Some (build_model ?a entity)\<rparr>)"
    using plan ok cr by (rule adapter_Create_success)
  have "adapter_Read verbs ?a ([], Some (build_model ?a entity)) respKR =
      Returned (respKR\<lparr>Diagnostics :=
                         Append (Diagnostics respKR) (fst ([], Some (build_model ?a entity))),
                       State := Some (build_model ?a entity)\<rparr>)"
    by (rule adapter_Read_success [OF _ _ sh]) (simp_all add: okR)
  with c show "\<exists>resp1 resp2.
        adapter_Create verbs ?a PlanK respK = Returned resp1 \<and>
        adapter_Read verbs ?a ([], State resp1) respKR = Returned resp2 \<and>
        State resp1 = Some (build_model ?a entity) \<and>
        State resp2 = State resp1"
    by simp
next
  assume cl: "client r = Some c" and plan: "snd Plan = Some data"
    and ok: "\<not> HasError (Append (Diagnostics resp0) (fst Plan))"
    and cr: "CatalogV2CreateTypeWithResponse c (create_requestBody r data) = Inr created"
       "StatusCode created < 400" "JSON created = Some e"
    and sh: "CatalogV2ShowTypeWithResponse c (CatalogTypeV2.Id e) = Inr shown"
    and sh': "StatusCode shown < 400" "JSON shown = Some e"
    and okR: "\<not> HasError (Diagnostics respR)"
  have c: "Create verbs r Plan resp0 =
      Returned (resp0\<lparr>Diagnostics := Append (Diagnostics resp0) (fst Plan),
                       State := Some (buildModel e)\<rparr>)"
    using cl plan ok cr by (rule Create_success)
  have key: "CatalogV2ShowTypeWithResponse c (ValueString (ID (buildModel e))) = Inr shown"
    using sh by (simp add: ID_buildModel)
  have "Read verbs r ([], Some (buildModel e)) respR =
      Returned (respR\<lparr>Diagnostics := Append (Diagnostics respR) (fst ([], Some (buildModel e))),
                       State := Some (buildModel e)\<rparr>)"
    by (rule Read_success [OF cl _ _ key sh']) (simp_all add: okR)
  with c show "\<exists>resp1 resp2.
        Create verbs r Plan resp0 = Returned resp1 \<and>
        Read verbs r ([], State resp1) respR = Returned resp2 \<and>
        State resp1 = Some (buildModel e) \<and>
        State resp2 = State resp1"
    by simp
qed

text \<open>The theorem at the example adapter, taken for the severity kind, and at the client that
  answers create and show of a catalog type with the example entity.\<close>

theorem Create_then_Read_same_model_witness:
  "(\<exists>resp1 resp2.
     adapter_Create (\<lambda>s. s) example_adapter ([], Some ([], ''Major''))
       \<lparr>Diagnostics = [], State = None\<rparr> = Returned resp1 \<and>
     adapter_Read (\<lambda>s. s) example_adapter ([], State resp1)
       \<lparr>Diagnostics = [], State = None\<rparr> = Returned resp2 \<and>
     State resp1 = Some (build_model example_adapter (''01H0'', ''Major'')) \<and>
     State resp2 = State resp1) \<and>
   (\<exists>resp1 resp2.
     Create (\<lambda>s. s) r_ok ([], Some team_plan) no_state = Returned resp1 \<and>
     Read (\<lambda>s. s) r_ok ([], State resp1) no_state = Returned resp2 \<and>
     State resp1 = Some (buildModel team_entity) \<and>
     State resp2 = State resp1)"
proof -
  note t = Create_then_Read_same_model
          [of NewIncidentSeverityResource "([], Some ([], ''Major''))" "([], ''Major'')"
              "\<lparr>Diagnostics = [], State = None\<rparr>" "\<lambda>k. example_adapter"
              "\<lparr>StatusCode = 201, Body = [], JSON = Some (''01H0'', ''Major'')\<rparr>"
              "(''01H0'', ''Major'')"
              "\<lparr>StatusCode = 200, Body = [], JSON = Some (''01H0'', ''Major'')\<rparr>"
              "\<lparr>Diagnostics = [], State = None\<rparr>" "\<lambda>s. s"
              r_ok ok_client "([], Some team_plan)" team_plan no_state
              "\<lparr>StatusCode = 201, Body = [], JSON = Some team_entity\<rparr>" team_entity
              "\<lparr>StatusCode = 200, Body = [], JSON = Some team_entity\<rparr>" no_state]
  have g: "NewIncidentSeverityResource \<in> set Resources \<and>
     snd ([], Some ([], ''Major'')) = Some ([], ''Major'') \<and>
     \<not> HasError (Append (Diagnostics \<lparr>Diagnostics = [], State = None\<rparr>)
                   (fst ([], Some ([], ''Major'')))) \<and>
     create_operation example_adapter (build_request example_adapter ([], ''Major'')) =
       Inr \<lparr>StatusCode = 201, Body = [], JSON = Some (''01H0'', ''Major'')\<rparr> \<and>
     StatusCode \<lparr>StatusCode = 201, Body = [], JSON = Some (''01H0'', ''Major'')\<rparr> < 400 \<and>
     JSON \<lparr>StatusCode = 201, Body = [], JSON = Some (''01H0'', ''Major'')\<rparr> =
       Some (''01H0'', ''Major'') \<and>
     show_operation example_adapter
       (model_identifier example_adapter (build_model example_adapter (''01H0'', ''Major''))) =
       Inr \<lparr>StatusCode = 200, Body = [], JSON = Some (''01H0'', ''Major'')\<rparr> \<and>
     StatusCode \<lparr>StatusCode = 200, Body = [], JSON = Some (''01H0'', ''Major'')\<rparr> < 400 \<and>
     JSON \<lparr>StatusCode = 200, Body = [], JSON = Some (''01H0'', ''Major'')\<rparr> =
       Some (''01H0'', ''Major'') \<and>
     \<not> HasError (Diagnostics \<lparr>Diagnostics = [], State = None\<rparr>)"
    by (simp add: Resources_def example_adapter_def HasError_def)
  have h: "client r_ok = Some ok_client \<and> snd ([], Some team_plan) = Some team_plan \<and>
     \<not> HasError (Append (Diagnostics no_state) (fst ([], Some team_plan))) \<and>
     CatalogV2CreateTypeWithResponse ok_client (create_requestBody r_ok team_plan) =
       Inr \<lparr>StatusCode = 201, Body = [], JSON = Some team_entity\<rparr> \<and>
     StatusCode \<lparr>StatusCode = 201, Body = [], JSON = Some team_entity\<rparr> < 400 \<and>
     JSON \<lparr>StatusCode = 201, Body = [], JSON = Some team_entity\<rparr> = Some team_entity \<and>
     CatalogV2ShowTypeWithResponse ok_client (CatalogTypeV2.Id team_entity) =
       Inr \<lparr>StatusCode = 200, Body = [], JSON = Some team_entity\<rparr> \<and>
     StatusCode \<lparr>StatusCode = 200, Body = [], JSON = Some team_entity\<rparr> < 400 \<and>
     JSON \<lparr>StatusCode = 200, Body = [], JSON = Some team_entity\<rparr> = Some team_entity \<and>
     \<not> HasError (Diagnostics no_state)"
    by (simp add: r_ok_def ok_client_def no_state_def HasError_def)
  show ?thesis
    by (intro conjI t [THEN conjunct1, THEN mp, OF g] t [THEN conjunct2, THEN mp, OF h])
qed

text \<open>C7: ImportState on a response without state sets the attribute \<open>id\<close> to the
  identifier and leaves every other attribute null and the diagnostics as they were. The
  Read that follows, keyed by that identifier and receiving the entity that a Create and its
  Read received, writes the same model to the state as that Create and Read did.\<close>

theorem Import_then_Read_same_as_Create_then_Read:
  assumes "client r = Some c" and "snd Plan = Some data"
    and "\<not> HasError (Append (Diagnostics resp0) (fst Plan))"
    and "CatalogV2CreateTypeWithResponse c (create_requestBody r data) = Inr created"
    and "StatusCode created < 400" and "JSON created = Some e"
    and "CatalogV2ShowTypeWithResponse c (CatalogTypeV2.Id e) = Inr shown"
    and "StatusCode shown < 400" and "JSON shown = Some e"
    and "\<not> HasError (Diagnostics respR)"
    and "CatalogV2ShowTypeWithResponse c req_ID = Inr shown'"
    and "StatusCode shown' < 400" and "JSON shown' = Some e"
    and "\<not> HasError (Diagnostics respI)" and "State respI = None"
  shows "\<exists>resp1 resp2 resp3.
     State (ImportState req_ID respI) = Some (null_state\<lparr>ID := StringValue req_ID\<rparr>) \<and>
     Diagnostics (ImportState req_ID respI) = Diagnostics respI \<and>
     Read verbs r ([], State (ImportState req_ID respI)) (ImportState req_ID respI) = Returned resp3 \<and>
     Create verbs r Plan resp0 = Returned resp1 \<and>
     Read verbs r ([], State resp1) respR = Returned resp2 \<and>
     State resp3 = State resp2 \<and>
     State resp3 = Some (buildModel e)"
proof -
  let ?imp = "ImportState req_ID respI"
  let ?resp1 = "resp0\<lparr>Diagnostics := Append (Diagnostics resp0) (fst Plan),
                       State := Some (buildModel e)\<rparr>"
  have st: "State ?imp = Some (null_state\<lparr>ID := StringValue req_ID\<rparr>)"
    by (simp add: ImportState_def SetAttribute_id_def assms(15))
  have dg: "Diagnostics ?imp = Diagnostics respI"
    by (simp add: ImportState_def)
  have c: "Create verbs r Plan resp0 = Returned ?resp1"
    using assms(1-6) by (rule Create_success)
  have key: "CatalogV2ShowTypeWithResponse c (ValueString (ID (buildModel e))) = Inr shown"
    using assms(7) by (simp add: ID_buildModel)
  have rd: "Read verbs r ([], Some (buildModel e)) respR =
      Returned (respR\<lparr>Diagnostics := Append (Diagnostics respR) (fst ([], Some (buildModel e))),
                       State := Some (buildModel e)\<rparr>)"
    by (rule Read_success [OF assms(1) _ _ key assms(8,9)]) (simp_all add: assms(10))
  have key': "CatalogV2ShowTypeWithResponse c
      (ValueString (ID (null_state\<lparr>ID := StringValue req_ID\<rparr>))) = Inr shown'"
    using assms(11) by simp
  have ri: "Read verbs r ([], Some (null_state\<lparr>ID := StringValue req_ID\<rparr>)) ?imp =
      Returned (?imp\<lparr>Diagnostics := Append (Diagnostics ?imp)
                         (fst ([], Some (null_state\<lparr>ID := StringValue req_ID\<rparr>))),
                      State := Some (buildModel e)\<rparr>)"
    by (rule Read_success [OF assms(1) _ _ key' assms(12,13)]) (simp_all add: dg assms(14))
  from st dg c rd ri show ?thesis by simp
qed

text \<open>The theorem at the example entity and its identifier.\<close>

theorem Import_then_Read_same_as_Create_then_Read_witness:
  "\<exists>resp1 resp2 resp3.
     State (ImportState ''01GW2G3V0S59R238FAHPDS1R66'' no_state) =
       Some (null_state\<lparr>ID := StringValue ''01GW2G3V0S59R238FAHPDS1R66''\<rparr>) \<and>
     Diagnostics (ImportState ''01GW2G3V0S59R238FAHPDS1R66'' no_state) = Diagnostics no_state \<and>
     Read (\<lambda>s. s) r_ok ([], State (ImportState ''01GW2G3V0S59R238FAHPDS1R66'' no_state))
       (ImportState ''01GW2G3V0S59R238FAHPDS1R66'' no_state) = Returned resp3 \<and>
     Create (\<lambda>s. s) r_ok ([], Some team_plan) no_state = Returned resp1 \<and>
     Read (\<lambda>s. s) r_ok ([], State resp1) no_state = Returned resp2 \<and>
     State resp3 = State resp2 \<and>
     State resp3 = Some (buildModel team_entity)"
  by (rule Import_then_Read_same_as_Create_then_Read
          [of r_ok ok_client "([], Some team_plan)" team_plan no_state
              "\<lparr>StatusCode = 201, Body = [], JSON = Some team_entity\<rparr>" team_entity
              "\<lparr>StatusCode = 200, Body = [], JSON = Some team_entity\<rparr>" no_state
              "''01GW2G3V0S59R238FAHPDS1R66''"
              "\<lparr>StatusCode = 200, Body = [], JSON = Some team_entity\<rparr>" no_state "\<lambda>s. s"])
     (simp_all add: r_ok_def ok_client_def no_state_def HasError_def team_entity_def)

text \<open>C8: the model that \<open>buildModel\<close> makes of a catalog type entity has the entity's id,
  name, type name and description; its source repository URL is set exactly when the
  entity's pointer is not nil, to the string the pointer points to, and is null otherwise.\<close>

theorem buildModel_fields:
  "ID (buildModel e) = StringValue (CatalogTypeV2.Id e) \<and>
   IncidentCatalogTypeResourceModel.Name (buildModel e) = StringValue (CatalogTypeV2.Name e) \<and>
   IncidentCatalogTypeResourceModel.TypeName (buildModel e) = StringValue (CatalogTypeV2.TypeName e) \<and>
   IncidentCatalogTypeResourceModel.Description (buildModel e) =
     StringValue (CatalogTypeV2.Description e) \<and>
   (SourceRepoURL (buildModel e) \<noteq> StringNull) = (CatalogTypeV2.SourceRepoUrl e \<noteq> None) \<and>
   SourceRepoURL (buildModel e) =
     (case CatalogTypeV2.SourceRepoUrl e of None \<Rightarrow> StringNull | Some url \<Rightarrow> StringValue url)"
  by (cases "CatalogTypeV2.SourceRepoUrl e") (simp_all add: buildModel_def)

text \<open>C9: when reading the config gave no error, a failure of the constructor of the
  bearer-token provider, or of the constructor of the client, makes Configure panic with
  that error: it does not return a response.\<close>

theorem construction_failure_panics:
  assumes "\<not> HasError (Append (Diagnostics resp) (fst Config))"
  shows "(nb (resolve_apiKey env (snd Config)) = Inl e \<longrightarrow>
            provider_Configure env nb nc p Config resp = Panic e) \<and>
         (nb (resolve_apiKey env (snd Config)) = Inr b \<and>
          nc (resolve_endpoint env (snd Config))
             [WithHTTPClient, WithRequestEditorFn (Intercept b),
              WithRequestEditorFn
                (AddHeader ''user-agent'' (''terraform-provider-incident/'' @ version p))] = Inl e \<longrightarrow>
            provider_Configure env nb nc p Config resp = Panic e)"
  using provider_Configure_run [OF assms, of env nb nc p] by simp

text \<open>The theorem at a token constructor that fails, and at a client constructor that fails.\<close>

theorem construction_failure_panics_witness:
  "provider_Configure Map.empty (\<lambda>apiKey. Inl ''no token'') (\<lambda>endpoint opts. Inr ok_client)
       \<lparr>version = ''dev''\<rparr> ([], \<lparr>Endpoint = StringNull, APIKey = StringNull\<rparr>)
       \<lparr>Diagnostics = [], DataSourceData = NilInterface, ResourceData = NilInterface\<rparr> =
     Panic ''no token'' \<and>
   provider_Configure Map.empty (\<lambda>apiKey. Inr (SecurityProviderBearerToken apiKey))
       (\<lambda>endpoint opts. Inl ''bad endpoint'')
       \<lparr>version = ''dev''\<rparr> ([], \<lparr>Endpoint = StringNull, APIKey = StringNull\<rparr>)
       \<lparr>Diagnostics = [], DataSourceData = NilInterface, ResourceData = NilInterface\<rparr> =
     Panic ''bad endpoint''"
  using construction_failure_panics
          [of "\<lparr>Diagnostics = [], DataSourceData = NilInterface, ResourceData = NilInterface\<rparr>"
              "([], \<lparr>Endpoint = StringNull, APIKey = StringNull\<rparr>)"
              "\<lambda>apiKey. Inl ''no token''" Map.empty "''no token''"
              "\<lambda>endpoint opts. Inr ok_client" "\<lparr>version = ''dev''\<rparr>"]
        construction_failure_panics
          [of "\<lparr>Diagnostics = [], DataSourceData = NilInterface, ResourceData = NilInterface\<rparr>"
              "([], \<lparr>Endpoint = StringNull, APIKey = StringNull\<rparr>)"
              "\<lambda>apiKey. Inr (SecurityProviderBearerToken apiKey)" Map.empty "''bad endpoint''"
              "\<lambda>endpoint opts. Inl ''bad endpoint''" "\<lparr>version = ''dev''\<rparr>"
              "SecurityProviderBearerToken []"]
  by (simp add: HasError_def resolve_apiKey_def Getenv_def)

text \<open>C10: the request body of Create holds a type name exactly when the plan's type name
  is a known string that is not empty, and then it is that string; the bodies of Create and
  of Update hold a source repository URL exactly when the plan's is a known string that is
  not empty. A configured empty string gives the same body as a null value. These bodies
  are what the operations hand to the client: whatever the client is, Create and Update
  write the entity, or report the error, that the client answers to exactly this body, and
  an operation on a plan with an empty string does what it does on the plan with null.\<close>

theorem optional_fields_sent_iff_nonempty:
  "(CreateTypeRequestBody.TypeName (create_requestBody r data) = Some s) =
     (IncidentCatalogTypeResourceModel.TypeName data = StringValue s \<and> s \<noteq> []) \<and>
   (CreateTypeRequestBody.SourceRepoUrl (create_requestBody r data) = Some s) =
     (SourceRepoURL data = StringValue s \<and> s \<noteq> []) \<and>
   (CatalogV2UpdateTypeJSONRequestBody.SourceRepoUrl (update_requestBody r data) = Some s) =
     (SourceRepoURL data = StringValue s \<and> s \<noteq> []) \<and>
   create_requestBody r (data\<lparr>IncidentCatalogTypeResourceModel.TypeName := StringValue []\<rparr>) =
     create_requestBody r (data\<lparr>IncidentCatalogTypeResourceModel.TypeName := StringNull\<rparr>) \<and>
   create_requestBody r (data\<lparr>SourceRepoURL := StringValue []\<rparr>) =
     create_requestBody r (data\<lparr>SourceRepoURL := StringNull\<rparr>) \<and>
   update_requestBody r (data\<lparr>SourceRepoURL := StringValue []\<rparr>) =
     update_requestBody r (data\<lparr>SourceRepoURL := StringNull\<rparr>) \<and>
   (client r = Some c \<and> \<not> HasError (Append (Diagnostics resp) diags) \<and>
    CatalogV2CreateTypeWithResponse c (create_requestBody r data) = Inr result \<and>
    StatusCode result < 400 \<and> JSON result = Some e \<longrightarrow>
      Create verbs r (diags, Some data) resp =
        Returned (resp\<lparr>Diagnostics := Append (Diagnostics resp) diags,
                        State := Some (buildModel e)\<rparr>)) \<and>
   (client r = Some c \<and> \<not> HasError (Append (Diagnostics resp) diags) \<and>
    status_error verbs (CatalogV2CreateTypeWithResponse c (create_requestBody r data)) = Some err \<longrightarrow>
      Create verbs r (diags, Some data) resp =
        Returned (resp\<lparr>Diagnostics := Append (Diagnostics resp) diags @
          [\<lparr>Severity = SeverityError, Summary = ''Client Error'',
            Detail = ''Unable to create catalog type, got error: '' @ err\<rparr>]\<rparr>)) \<and>
   (client r = Some c \<and> \<not> HasError (Append (Diagnostics resp) diags) \<and>
    CatalogV2UpdateTypeWithResponse c (ValueString (ID data)) (update_requestBody r data) =
      Inr result \<and>
    StatusCode result < 400 \<and> JSON result = Some e \<longrightarrow>
      Update verbs r (diags, Some data) resp =
        Returned (resp\<lparr>Diagnostics := Append (Diagnostics resp) diags,
                        State := Some (buildModel e)\<rparr>)) \<and>
   (client r = Some c \<and> \<not> HasError (Append (Diagnostics resp) diags) \<and>
    status_error verbs
      (CatalogV2UpdateTypeWithResponse c (ValueString (ID data)) (update_requestBody r data)) =
      Some err \<longrightarrow>
      Update verbs r (diags, Some data) resp =
        Returned (resp\<lparr>Diagnostics := Append (Diagnostics resp) diags @
          [\<lparr>Severity = SeverityError, Summary = ''Client Error'',
            Detail = ''Unable to update catalog type, got error: '' @ err\<rparr>]\<rparr>)) \<and>
   Create verbs r (diags, Some (data\<lparr>IncidentCatalogTypeResourceModel.TypeName := StringValue []\<rparr>)) resp =
     Create verbs r (diags, Some (data\<lparr>IncidentCatalogTypeResourceModel.TypeName := StringNull\<rparr>)) resp \<and>
   Create verbs r (diags, Some (data\<lparr>SourceRepoURL := StringValue []\<rparr>)) resp =
     Create verbs r (diags, Some (data\<lparr>SourceRepoURL := StringNull\<rparr>)) resp \<and>
   Update verbs r (diags, Some (data\<lparr>SourceRepoURL := StringValue []\<rparr>)) resp =
     Update verbs r (diags, Some (data\<lparr>SourceRepoURL := StringNull\<rparr>)) resp"
proof -
  have fields:
    "(CreateTypeRequestBody.TypeName (create_requestBody r data) = Some s) =
       (IncidentCatalogTypeResourceModel.TypeName data = StringValue s \<and> s \<noteq> [])"
    "(CreateTypeRequestBody.SourceRepoUrl (create_requestBody r data) = Some s) =
       (SourceRepoURL data = StringValue s \<and> s \<noteq> [])"
    "(CatalogV2UpdateTypeJSONRequestBody.SourceRepoUrl (update_requestBody r data) = Some s) =
       (SourceRepoURL data = StringValue s \<and> s \<noteq> [])"
    by (cases "IncidentCatalogTypeResourceModel.TypeName data"; cases "SourceRepoURL data";
        auto simp: create_requestBody_def update_requestBody_def Let_def)+
  have cs: "client r = Some c \<and> \<not> HasError (Append (Diagnostics resp) diags) \<and>
      CatalogV2CreateTypeWithResponse c (create_requestBody r data) = Inr result \<and>
      StatusCode result < 400 \<and> JSON result = Some e \<longrightarrow>
      Create verbs r (diags, Some data) resp =
        Returned (resp\<lparr>Diagnostics := Append (Diagnostics resp) diags,
                        State := Some (buildModel e)\<rparr>)"
    using Create_success [of r c "(diags, Some data)" data resp result e verbs] by simp
  have ce: "client r = Some c \<and> \<not> HasError (Append (Diagnostics resp) diags) \<and>
      status_error verbs (CatalogV2CreateTypeWithResponse c (create_requestBody r data)) = Some err \<longrightarrow>
      Create verbs r (diags, Some data) resp =
        Returned (resp\<lparr>Diagnostics := Append (Diagnostics resp) diags @
          [\<lparr>Severity = SeverityError, Summary = ''Client Error'',
            Detail = ''Unable to create catalog type, got error: '' @ err\<rparr>]\<rparr>)"
    using Create_error [of r c "(diags, Some data)" data resp verbs err] by simp
  have us: "client r = Some c \<and> \<not> HasError (Append (Diagnostics resp) diags) \<and>
      CatalogV2UpdateTypeWithResponse c (ValueString (ID data)) (update_requestBody r data) =
        Inr result \<and>
      StatusCode result < 400 \<and> JSON result = Some e \<longrightarrow>
      Update verbs r (diags, Some data) resp =
        Returned (resp\<lparr>Diagnostics := Append (Diagnostics resp) diags,
                        State := Some (buildModel e)\<rparr>)"
    using Update_success [of r c "(diags, Some data)" data resp result e verbs] by simp
  have ue: "client r = Some c \<and> \<not> HasError (Append (Diagnostics resp) diags) \<and>
      status_error verbs
        (CatalogV2UpdateTypeWithResponse c (ValueString (ID data)) (update_requestBody r data)) =
        Some err \<longrightarrow>
      Update verbs r (diags, Some data) resp =
        Returned (resp\<lparr>Diagnostics := Append (Diagnostics resp) diags @
          [\<lparr>Severity = SeverityError, Summary = ''Client Error'',
            Detail = ''Unable to update catalog type, got error: '' @ err\<rparr>]\<rparr>)"
    using Update_error [of r c "(diags, Some data)" data resp verbs err] by simp
  have c1: "Create verbs r
        (diags, Some (data\<lparr>IncidentCatalogTypeResourceModel.TypeName := StringValue []\<rparr>)) resp =
      Create verbs r
        (diags, Some (data\<lparr>IncidentCatalogTypeResourceModel.TypeName := StringNull\<rparr>)) resp"
    by (rule Create_body_only) (rule create_requestBody_empty_TypeName)
  have c2: "Create verbs r (diags, Some (data\<lparr>SourceRepoURL := StringValue []\<rparr>)) resp =
      Create verbs r (diags, Some (data\<lparr>SourceRepoURL := StringNull\<rparr>)) resp"
    by (rule Create_body_only) (rule create_requestBody_empty_SourceRepoURL)
  have u2: "Update verbs r (diags, Some (data\<lparr>SourceRepoURL := StringValue []\<rparr>)) resp =
      Update verbs r (diags, Some (data\<lparr>SourceRepoURL := StringNull\<rparr>)) resp"
    by (rule Update_body_and_ID_only) (simp_all add: update_requestBody_empty_SourceRepoURL)
  show ?thesis
    by (intro conjI fields create_requestBody_empty_TypeName create_requestBody_empty_SourceRepoURL
          update_requestBody_empty_SourceRepoURL cs ce us ue c1 c2 u2)
qed

text \<open>The theorem at a plan with an empty type name and a source repository URL: the body
  has no type name and has the URL; with the client that succeeds, Create and Update write
  the entity it answers to these bodies, with the client that answers 404 they report its
  body.\<close>

theorem optional_fields_sent_iff_nonempty_witness:
  "CreateTypeRequestBody.TypeName (create_requestBody r_ok repo_plan) = None \<and>
   CreateTypeRequestBody.SourceRepoUrl (create_requestBody r_ok repo_plan) =
     Some ''https://example.test/repo'' \<and>
   CatalogV2UpdateTypeJSONRequestBody.SourceRepoUrl (update_requestBody r_ok repo_plan) =
     Some ''https://example.test/repo'' \<and>
   Create (\<lambda>s. s) r_ok ([], Some repo_plan) no_state =
     Returned (no_state\<lparr>Diagnostics := Append (Diagnostics no_state) [],
                         State := Some (buildModel team_entity)\<rparr>) \<and>
   Update (\<lambda>s. s) r_ok ([], Some repo_plan) no_state =
     Returned (no_state\<lparr>Diagnostics := Append (Diagnostics no_state) [],
                         State := Some (buildModel team_entity)\<rparr>) \<and>
   Create (\<lambda>s. s) r_not_found ([], Some repo_plan) no_state =
     Returned (no_state\<lparr>Diagnostics := Append (Diagnostics no_state) [] @
       [\<lparr>Severity = SeverityError, Summary = ''Client Error'',
         Detail = ''Unable to create catalog type, got error: '' @ ''not found''\<rparr>]\<rparr>) \<and>
   Update (\<lambda>s. s) r_not_found ([], Some repo_plan) no_state =
     Returned (no_state\<lparr>Diagnostics := Append (Diagnostics no_state) [] @
       [\<lparr>Severity = SeverityError, Summary = ''Client Error'',
         Detail = ''Unable to update catalog type, got error: '' @ ''not found''\<rparr>]\<rparr>)"
proof -
  note ok = optional_fields_sent_iff_nonempty
      [of r_ok repo_plan "''https://example.test/repo''" ok_client no_state "[]"
          "\<lparr>StatusCode = 201, Body = [], JSON = Some team_entity\<rparr>" team_entity "\<lambda>s. s" "[]"]
  note ok' = optional_fields_sent_iff_nonempty
      [of r_ok repo_plan "''https://example.test/repo''" ok_client no_state "[]"
          "\<lparr>StatusCode = 200, Body = [], JSON = Some team_entity\<rparr>" team_entity "\<lambda>s. s" "[]"]
  note nf = optional_fields_sent_iff_nonempty
      [of r_not_found repo_plan "[]" not_found_client no_state "[]"
          "\<lparr>StatusCode = 404, Body = ''not found'', JSON = None\<rparr>" team_entity "\<lambda>s. s"
          "''not found''"]
  have b: "CreateTypeRequestBody.TypeName (create_requestBody r_ok repo_plan) = None"
    by (simp add: create_requestBody_def repo_plan_def)
  have h1: "client r_ok = Some ok_client \<and> \<not> HasError (Append (Diagnostics no_state) []) \<and>
      CatalogV2CreateTypeWithResponse ok_client (create_requestBody r_ok repo_plan) =
        Inr \<lparr>StatusCode = 201, Body = [], JSON = Some team_entity\<rparr> \<and>
      StatusCode \<lparr>StatusCode = 201, Body = [], JSON = Some team_entity\<rparr> < 400 \<and>
      JSON \<lparr>StatusCode = 201, Body = [], JSON = Some team_entity\<rparr> = Some team_entity"
    by (simp add: r_ok_def ok_client_def no_state_def HasError_def)
  have h2: "client r_ok = Some ok_client \<and> \<not> HasError (Append (Diagnostics no_state) []) \<and>
      CatalogV2UpdateTypeWithResponse ok_client (ValueString (ID repo_plan))
        (update_requestBody r_ok repo_plan) =
        Inr \<lparr>StatusCode = 200, Body = [], JSON = Some team_entity\<rparr> \<and>
      StatusCode \<lparr>StatusCode = 200, Body = [], JSON = Some team_entity\<rparr> < 400 \<and>
      JSON \<lparr>StatusCode = 200, Body = [], JSON = Some team_entity\<rparr> = Some team_entity"
    by (simp add: r_ok_def ok_client_def no_state_def HasError_def)
  have h3: "client r_not_found = Some not_found_client \<and>
      \<not> HasError (Append (Diagnostics no_state) []) \<and>
      status_error (\<lambda>s. s)
        (CatalogV2CreateTypeWithResponse not_found_client (create_requestBody r_not_found repo_plan)) =
        Some ''not found''"
    by (simp add: r_not_found_def not_found_client_def no_state_def HasError_def status_error_def
          Errorf_def)
  have h4: "client r_not_found = Some not_found_client \<and>
      \<not> HasError (Append (Diagnostics no_state) []) \<and>
      status_error (\<lambda>s. s)
        (CatalogV2UpdateTypeWithResponse not_found_client (ValueString (ID repo_plan))
           (update_requestBody r_not_found repo_plan)) =
        Some ''not found''"
    by (simp add: r_not_found_def not_found_client_def no_state_def HasError_def status_error_def
          Errorf_def)
  have s: "SourceRepoURL repo_plan = StringValue ''https://example.test/repo'' \<and>
      ''https://example.test/repo'' \<noteq> []"
    by (simp add: repo_plan_def)
  have w2: "CreateTypeRequestBody.SourceRepoUrl (create_requestBody r_ok repo_plan) =
      Some ''https://example.test/repo''"
    using s by (rule ok [THEN conjunct2, THEN conjunct1, THEN iffD2])
  have w3: "CatalogV2UpdateTypeJSONRequestBody.SourceRepoUrl (update_requestBody r_ok repo_plan) =
      Some ''https://example.test/repo''"
    using s by (rule ok [THEN conjunct2, THEN conjunct2, THEN conjunct1, THEN iffD2])
  note c7 = conjunct2 [THEN conjunct2, THEN conjunct2, THEN conjunct2, THEN conjunct2,
      THEN conjunct2, THEN conjunct1]
  note c8 = conjunct2 [THEN conjunct2, THEN conjunct2, THEN conjunct2, THEN conjunct2,
      THEN conjunct2, THEN conjunct2, THEN conjunct1]
  note c9 = conjunct2 [THEN conjunct2, THEN conjunct2, THEN conjunct2, THEN conjunct2,
      THEN conjunct2, THEN conjunct2, THEN conjunct2, THEN conjunct1]
  note c10 = conjunct2 [THEN conjunct2, THEN conjunct2, THEN conjunct2, THEN conjunct2,
      THEN conjunct2, THEN conjunct2, THEN conjunct2, THEN conjunct2, THEN conjunct1]
  have w4: "Create (\<lambda>s. s) r_ok ([], Some repo_plan) no_state =
     Returned (no_state\<lparr>Diagnostics := Append (Diagnostics no_state) [],
                         State := Some (buildModel team_entity)\<rparr>)"
    using h1 by (rule ok [THEN c7, THEN mp])
  have w5: "Update (\<lambda>s. s) r_ok ([], Some repo_plan) no_state =
     Returned (no_state\<lparr>Diagnostics := Append (Diagnostics no_state) [],
                         State := Some (buildModel team_entity)\<rparr>)"
    using h2 by (rule ok' [THEN c9, THEN mp])
  have w6: "Create (\<lambda>s. s) r_not_found ([], Some repo_plan) no_state =
     Returned (no_state\<lparr>Diagnostics := Append (Diagnostics no_state) [] @
       [\<lparr>Severity = SeverityError, Summary = ''Client Error'',
         Detail = ''Unable to create catalog type, got error: '' @ ''not found''\<rparr>]\<rparr>)"
    using h3 by (rule nf [THEN c8, THEN mp])
  have w7: "Update (\<lambda>s. s) r_not_found ([], Some repo_plan) no_state =
     Returned (no_state\<lparr>Diagnostics := Append (Diagnostics no_state) [] @
       [\<lparr>Severity = SeverityError, Summary = ''Client Error'',
         Detail = ''Unable to update catalog type, got error: '' @ ''not found''\<rparr>]\<rparr>)"
    using h4 by (rule nf [THEN c10, THEN mp])
  show ?thesis
    by (intro conjI b w2 w3 w4 w5 w6 w7)
qed

end
